theory Spec2Isabelle
  imports Complex_Main "HOL-Library.Multiset" "HOL-Library.Option_ord"
begin

unbundle bit_operations_syntax

section \<open>Earth Engine values\<close>

text \<open>
  The script \<^verbatim>\<open>src/unnamed/part_001\<close> (daily land surface temperature prediction) is a
  client program of the Earth Engine library.  Its values are images, image collections,
  features and lists.  An image is a list of named bands, a property dictionary and a
  footprint; a band is a raster, a partial function from pixel positions to numbers where
  \<open>None\<close> is a masked pixel.  Pixel values are idealised as real numbers.  A collection is a
  list.  An operation that the library rejects (a band that does not exist, a reduction of a
  collection whose images disagree on their bands, a rename with the wrong number of names,
  a reducer with the wrong number of columns) returns an error value.

  Dates are written \<^verbatim>\<open>YYYY-MM-DD\<close> in the script; they are modelled by their day number
  (days since 1970-01-01, UTC), so that \<^verbatim>\<open>advance(k, 'day')\<close> adds \<open>k\<close>,
  \<^verbatim>\<open>difference(d, 'day')\<close> subtracts and \<^verbatim>\<open>millis()\<close> multiplies by 86400000.
\<close>

type_synonym 'p raster = "'p \<Rightarrow> real option"

record 'p image =
  bands :: "(string \<times> 'p raster) list"
  props :: "string \<rightharpoonup> real"
  footprint :: "'p set"

datatype ee_error =
    BandNotFound string
  | NotHomogeneous
  | RenameArity nat
  | SelectorArity nat nat

type_synonym 'a result = "ee_error + 'a"

type_synonym date = int

type_synonym sample = "string \<rightharpoonup> real"

text \<open>The trained regression model: the input properties it was fitted on and the fitted
  function from their values to the predicted label.\<close>

record classifier =
  inputProperties :: "string list"
  predict :: "real list \<Rightarrow> real"

text \<open>
  The library's numerics that the script only calls: reducers, the normalized difference of
  two pixel values, the terrain kernels, the stratified sampler, the pseudo-random column and
  the random forest fit.  They are parameters of the model.
\<close>

record 'p ee_lib =
  reducer_median :: "real list \<Rightarrow> real"
  reducer_mean :: "real list \<Rightarrow> real"
  pixel_nd :: "real \<Rightarrow> real \<Rightarrow> real option"
  focalMean :: "real \<Rightarrow> 'p raster \<Rightarrow> 'p raster"
  terrain_slope :: "'p raster \<Rightarrow> 'p raster"
  stratifiedSample :: "'p image \<Rightarrow> real \<Rightarrow> nat \<Rightarrow> 'p set \<Rightarrow> string \<Rightarrow> nat \<Rightarrow> sample list"
  random_draw :: "nat \<Rightarrow> nat \<Rightarrow> real"
  smileRandomForest :: "nat \<Rightarrow> sample list \<Rightarrow> string \<Rightarrow> string list \<Rightarrow> real list \<Rightarrow> real"

text \<open>The archives the script imports: the SRTM elevation image and the Landsat 8,
  Landsat 9 and Sentinel-2 collections.\<close>

record 'p catalog =
  srtm :: "'p image"
  l8 :: "'p image list"
  l9 :: "'p image list"
  s2 :: "'p image list"

subsection \<open>Errors\<close>

definition ee_bind :: "'a result \<Rightarrow> ('a \<Rightarrow> 'b result) \<Rightarrow> 'b result" where
  "ee_bind m f = (case m of Inl e \<Rightarrow> Inl e | Inr x \<Rightarrow> f x)"

fun ee_mapM :: "('a \<Rightarrow> 'b result) \<Rightarrow> 'a list \<Rightarrow> 'b list result" where
  "ee_mapM f [] = Inr []"
| "ee_mapM f (x # xs) =
     (case f x of Inl e \<Rightarrow> Inl e
      | Inr y \<Rightarrow> (case ee_mapM f xs of Inl e \<Rightarrow> Inl e | Inr ys \<Rightarrow> Inr (y # ys)))"

subsection \<open>Dates and lists\<close>

definition millis :: "date \<Rightarrow> real" where
  "millis d = 86400000 * of_int d"

definition advance :: "date \<Rightarrow> int \<Rightarrow> date" where
  "advance d k = d + k"

definition difference :: "date \<Rightarrow> date \<Rightarrow> int" where
  "difference e s = e - s"

text \<open>\<^verbatim>\<open>ee.List.sequence(a, b)\<close>: the numbers from \<open>a\<close> to \<open>b\<close> inclusive in steps of 1, the
  empty list when \<open>b < a\<close>.\<close>

definition sequence :: "int \<Rightarrow> int \<Rightarrow> int list" where
  "sequence a b = [a..b]"

subsection \<open>Images\<close>

definition bandNames :: "'p image \<Rightarrow> string list" where
  "bandNames img = map fst (bands img)"

definition lift1 :: "(real \<Rightarrow> real) \<Rightarrow> 'p raster \<Rightarrow> 'p raster" where
  "lift1 f r = (\<lambda>p. map_option f (r p))"

definition lift2 :: "(real \<Rightarrow> real \<Rightarrow> real) \<Rightarrow> 'p raster \<Rightarrow> 'p raster \<Rightarrow> 'p raster" where
  "lift2 f a b = (\<lambda>p. case (a p, b p) of (Some x, Some y) \<Rightarrow> Some (f x y) | _ \<Rightarrow> None)"

definition mapBands :: "('p raster \<Rightarrow> 'p raster) \<Rightarrow> 'p image \<Rightarrow> 'p image" where
  "mapBands f img = img\<lparr>bands := map (\<lambda>(n, r). (n, f r)) (bands img)\<rparr>"

text \<open>The raster of the first band, used where the script passes a single-band image as the
  second operand of a pixel-wise operation (the band is applied to every band of the first
  operand).\<close>

definition firstBand :: "'p image \<Rightarrow> 'p raster" where
  "firstBand img = (case bands img of [] \<Rightarrow> (\<lambda>p. None) | (n, r) # _ \<Rightarrow> r)"

text \<open>\<^verbatim>\<open>ee.Image()\<close> is an empty transparent image: one band, called \<^verbatim>\<open>constant\<close>, masked
  everywhere.  \<^verbatim>\<open>ee.Image(c)\<close> is the constant image.\<close>

definition emptyImage :: "'p image" where
  "emptyImage = \<lparr>bands = [(''constant'', \<lambda>p. None)], props = Map.empty, footprint = UNIV\<rparr>"

definition constantImage :: "real \<Rightarrow> 'p image" where
  "constantImage c = \<lparr>bands = [(''constant'', \<lambda>p. Some c)], props = Map.empty, footprint = UNIV\<rparr>"

definition select :: "string \<Rightarrow> 'p image \<Rightarrow> 'p image result" where
  "select n img =
     (case map_of (bands img) n of
        None \<Rightarrow> Inl (BandNotFound n)
      | Some r \<Rightarrow> Inr (img\<lparr>bands := [(n, r)]\<rparr>))"

text \<open>\<^verbatim>\<open>select("B.*")\<close> keeps the bands whose whole name matches the regular expression,
  that is, the names that start with the letter B.\<close>

definition matchesB :: "string \<Rightarrow> bool" where
  "matchesB n = (case n of [] \<Rightarrow> False | c # _ \<Rightarrow> c = CHR ''B'')"

definition selectB :: "'p image \<Rightarrow> 'p image" where
  "selectB img = img\<lparr>bands := filter (\<lambda>(n, r). matchesB n) (bands img)\<rparr>"

definition rename :: "string \<Rightarrow> 'p image \<Rightarrow> 'p image result" where
  "rename n img =
     (case bands img of
        [(old, r)] \<Rightarrow> Inr (img\<lparr>bands := [(n, r)]\<rparr>)
      | _ \<Rightarrow> Inl (RenameArity (length (bands img))))"

definition setProp :: "string \<Rightarrow> real \<Rightarrow> 'p image \<Rightarrow> 'p image" where
  "setProp k v img = img\<lparr>props := (props img)(k \<mapsto> v)\<rparr>"

definition bitwiseAnd :: "int \<Rightarrow> 'p image \<Rightarrow> 'p image" where
  "bitwiseAnd c img = mapBands (lift1 (\<lambda>v. of_int (\<lfloor>v\<rfloor> AND c))) img"

definition eqConst :: "real \<Rightarrow> 'p image \<Rightarrow> 'p image" where
  "eqConst c img = mapBands (lift1 (\<lambda>v. if v = c then 1 else 0)) img"

definition andImage :: "'p image \<Rightarrow> 'p image \<Rightarrow> 'p image" where
  "andImage a b =
     mapBands (\<lambda>r. lift2 (\<lambda>x y. if x \<noteq> 0 \<and> y \<noteq> 0 then 1 else 0) r (firstBand b)) a"

definition updateMask :: "'p image \<Rightarrow> 'p image \<Rightarrow> 'p image" where
  "updateMask img msk =
     mapBands (\<lambda>r p. case firstBand msk p of
                       None \<Rightarrow> None
                     | Some v \<Rightarrow> if v \<noteq> 0 then r p else None) img"

definition divideConst :: "real \<Rightarrow> 'p image \<Rightarrow> 'p image" where
  "divideConst c img = mapBands (lift1 (\<lambda>v. v / c)) img"

definition multiplyConst :: "real \<Rightarrow> 'p image \<Rightarrow> 'p image" where
  "multiplyConst c img = mapBands (lift1 (\<lambda>v. v * c)) img"

definition addConst :: "real \<Rightarrow> 'p image \<Rightarrow> 'p image" where
  "addConst c img = mapBands (lift1 (\<lambda>v. v + c)) img"

definition subtractConst :: "real \<Rightarrow> 'p image \<Rightarrow> 'p image" where
  "subtractConst c img = mapBands (lift1 (\<lambda>v. v - c)) img"

definition subtractImage :: "'p image \<Rightarrow> 'p image \<Rightarrow> 'p image" where
  "subtractImage a b = mapBands (\<lambda>r. lift2 (\<lambda>x y. x - y) r (firstBand b)) a"

definition clip :: "'p set \<Rightarrow> 'p image \<Rightarrow> 'p image" where
  "clip region img =
     (mapBands (\<lambda>r p. if p \<in> region then r p else None) img)
       \<lparr>footprint := footprint img \<inter> region\<rparr>"

text \<open>\<^verbatim>\<open>addBands\<close> and the list constructor \<^verbatim>\<open>ee.Image([...])\<close> put the bands of the images
  one after the other; the properties and footprint are those of the first image.\<close>

definition addBands :: "'p image \<Rightarrow> 'p image list \<Rightarrow> 'p image" where
  "addBands img others = img\<lparr>bands := bands img @ concat (map bands others)\<rparr>"

definition catImages :: "'p image list \<Rightarrow> 'p image" where
  "catImages imgs = (case imgs of [] \<Rightarrow> emptyImage\<lparr>bands := []\<rparr> | i # others \<Rightarrow> addBands i others)"

text \<open>\<^verbatim>\<open>normalizedDifference([a, b])\<close>: one band called \<^verbatim>\<open>nd\<close>; the properties of the
  input are not kept.\<close>

definition normalizedDifference :: "'p ee_lib \<Rightarrow> string \<Rightarrow> string \<Rightarrow> 'p image \<Rightarrow> 'p image result" where
  "normalizedDifference lib a b img =
     ee_bind (select a img) (\<lambda>ia.
     ee_bind (select b img) (\<lambda>ib.
       Inr \<lparr>bands = [(''nd'', \<lambda>p. case (firstBand ia p, firstBand ib p) of
                                      (Some x, Some y) \<Rightarrow> pixel_nd lib x y
                                    | _ \<Rightarrow> None)],
            props = Map.empty,
            footprint = footprint img\<rparr>))"

text \<open>A reduction of a collection to one image (\<^verbatim>\<open>median()\<close>, \<^verbatim>\<open>mean()\<close>): band by band
  and pixel by pixel over the unmasked inputs.  The empty collection gives an image without
  bands; a collection whose images disagree on their band names is rejected.\<close>

definition reduceCollection :: "(real list \<Rightarrow> real) \<Rightarrow> 'p image list \<Rightarrow> 'p image result" where
  "reduceCollection red imgs =
     (case imgs of
        [] \<Rightarrow> Inr \<lparr>bands = [], props = Map.empty, footprint = UNIV\<rparr>
      | i # others \<Rightarrow>
          if list_all (\<lambda>j. bandNames j = bandNames i) others
          then Inr \<lparr>bands = map (\<lambda>(k, n).
                        (n, \<lambda>p. let vs = List.map_filter (\<lambda>j. snd (bands j ! k) p) imgs
                                 in if vs = [] then None else Some (red vs)))
                        (enumerate 0 (bandNames i)),
                    props = Map.empty,
                    footprint = UNIV\<rparr>
          else Inl NotHomogeneous)"

text \<open>\<^verbatim>\<open>classify(model, name)\<close>: one band called \<open>name\<close>, predicted where every input band of
  the model is unmasked; an input band that the image lacks is an error.\<close>

definition classify :: "classifier \<Rightarrow> string \<Rightarrow> 'p image \<Rightarrow> 'p image result" where
  "classify m out img =
     (case find (\<lambda>n. map_of (bands img) n = None) (inputProperties m) of
        Some n \<Rightarrow> Inl (BandNotFound n)
      | None \<Rightarrow>
          Inr \<lparr>bands = [(out, \<lambda>p. map_option (predict m)
                               (those (map (\<lambda>n. case map_of (bands img) n of
                                                   None \<Rightarrow> None | Some r \<Rightarrow> r p)
                                           (inputProperties m))))],
               props = props img,
               footprint = footprint img\<rparr>)"

subsection \<open>Collection filters\<close>

definition filterBounds :: "'p set \<Rightarrow> 'p image list \<Rightarrow> 'p image list" where
  "filterBounds region imgs = filter (\<lambda>i. footprint i \<inter> region \<noteq> {}) imgs"

definition filterDate :: "date \<Rightarrow> date \<Rightarrow> 'p image list \<Rightarrow> 'p image list" where
  "filterDate a b imgs =
     filter (\<lambda>i. case props i ''system:time_start'' of
                   None \<Rightarrow> False
                 | Some t \<Rightarrow> millis a \<le> t \<and> t < millis b) imgs"

definition filter_lt :: "string \<Rightarrow> real \<Rightarrow> (string \<rightharpoonup> real) \<Rightarrow> bool" where
  "filter_lt k v ps = (case ps k of None \<Rightarrow> False | Some x \<Rightarrow> x < v)"

definition filter_gt :: "string \<Rightarrow> real \<Rightarrow> (string \<rightharpoonup> real) \<Rightarrow> bool" where
  "filter_gt k v ps = (case ps k of None \<Rightarrow> False | Some x \<Rightarrow> v < x)"

definition filter_eq :: "string \<Rightarrow> real \<Rightarrow> (string \<rightharpoonup> real) \<Rightarrow> bool" where
  "filter_eq k v ps = (ps k = Some v)"

text \<open>The library defines \<^verbatim>\<open>ee.Filter.neq\<close> as the negation of \<^verbatim>\<open>ee.Filter.eq\<close> and
  \<^verbatim>\<open>ee.Filter.lte\<close> as the negation of \<^verbatim>\<open>ee.Filter.gt\<close>, so an element without the
  property passes them.\<close>

definition filter_neq :: "string \<Rightarrow> real \<Rightarrow> (string \<rightharpoonup> real) \<Rightarrow> bool" where
  "filter_neq k v ps = (\<not> filter_eq k v ps)"

definition filter_lte :: "string \<Rightarrow> real \<Rightarrow> (string \<rightharpoonup> real) \<Rightarrow> bool" where
  "filter_lte k v ps = (\<not> filter_gt k v ps)"

section \<open>Base data and masking\<close>

definition cloudMaskS2 :: "'p image \<Rightarrow> 'p image result" where
  "cloudMaskS2 img =
     ee_bind (select ''QA60'' img) (\<lambda>qa.
       let cloud = 2 ^ 10;
           cirrus = 2 ^ 11;
           msk = andImage (eqConst 0 (bitwiseAnd cloud qa)) (eqConst 0 (bitwiseAnd cirrus qa))
       in Inr (selectB (divideConst 10000 (updateMask img msk))))"

section \<open>Daily prediction\<close>

text \<open>The terrain features are computed once by the script from the elevation image and
  are read by the prediction function.\<close>

definition focalMeanImage :: "'p ee_lib \<Rightarrow> real \<Rightarrow> 'p image \<Rightarrow> 'p image" where
  "focalMeanImage lib radius img = mapBands (focalMean lib radius) img"

text \<open>\<^verbatim>\<open>ee.Terrain.slope\<close> gives one band called \<^verbatim>\<open>slope\<close>.\<close>

definition terrainSlope :: "'p ee_lib \<Rightarrow> 'p image \<Rightarrow> 'p image" where
  "terrainSlope lib img =
     \<lparr>bands = [(''slope'', terrain_slope lib (firstBand img))],
      props = Map.empty,
      footprint = footprint img\<rparr>"

definition tpi :: "'p ee_lib \<Rightarrow> 'p catalog \<Rightarrow> 'p image result" where
  "tpi lib cat = rename ''TPI'' (subtractImage (srtm cat) (focalMeanImage lib 5 (srtm cat)))"

definition slope :: "'p ee_lib \<Rightarrow> 'p catalog \<Rightarrow> 'p image result" where
  "slope lib cat = rename ''slope'' (terrainSlope lib (srtm cat))"

text \<open>The Sentinel-2 images of one day over the area, before cloud masking: the source-image
  query of a time unit.\<close>

definition s2query :: "'p catalog \<Rightarrow> 'p set \<Rightarrow> date \<Rightarrow> 'p image list" where
  "s2query cat aoi day =
     filter (\<lambda>i. filter_lt ''CLOUDY_PIXEL_PERCENTAGE'' 10 (props i))
       (filterDate day (advance day 1) (filterBounds aoi (s2 cat)))"

text \<open>The feature stack of one day: the variable \<^verbatim>\<open>all\<close> of the prediction function.\<close>

definition dayFeatures :: "'p ee_lib \<Rightarrow> 'p catalog \<Rightarrow> 'p set \<Rightarrow> 'p image list \<Rightarrow> 'p image result" where
  "dayFeatures lib cat aoi s2day =
     ee_bind (reduceCollection (reducer_median lib) s2day) (\<lambda>med.
       let img = clip aoi med in
       ee_bind (ee_bind (normalizedDifference lib ''B8'' ''B11'' img) (rename ''NDMI'')) (\<lambda>ndmi.
       ee_bind (ee_bind (normalizedDifference lib ''B8'' ''B12'' img) (rename ''NBR'')) (\<lambda>nbr.
       ee_bind (ee_bind (normalizedDifference lib ''B3'' ''B12'' img) (rename ''MNDWI2'')) (\<lambda>mndwi2.
       ee_bind (rename ''elevation'' (srtm cat)) (\<lambda>elevation.
       ee_bind (tpi lib cat) (\<lambda>tpi_img.
       ee_bind (slope lib cat) (\<lambda>slope_img.
         Inr (addBands img [ndmi, nbr, mndwi2, elevation, tpi_img, slope_img]))))))))"

text \<open>The body of the function mapped over the day offsets.\<close>

definition predictDay ::
  "'p ee_lib \<Rightarrow> 'p catalog \<Rightarrow> classifier \<Rightarrow> date \<Rightarrow> 'p set \<Rightarrow> int \<Rightarrow> 'p image result" where
  "predictDay lib cat model startDate aoi offset =
     (let day = advance startDate offset in
      ee_bind (ee_mapM cloudMaskS2 (s2query cat aoi day)) (\<lambda>s2day.
        let hasData = (0 < length s2day) in
        if hasData
        then ee_bind (dayFeatures lib cat aoi s2day) (\<lambda>all_bands.
             ee_bind (classify model ''LST'' all_bands) (\<lambda>c.
               rename ''LST'' (setProp ''system:time_start'' (millis day) c)))
        else ee_bind (rename ''LST'' emptyImage) (\<lambda>e.
               Inr (setProp ''noData'' 1 (setProp ''system:time_start'' (millis day) e)))))"

definition predictDailyLST ::
  "'p ee_lib \<Rightarrow> 'p catalog \<Rightarrow> classifier \<Rightarrow> date \<Rightarrow> date \<Rightarrow> 'p set \<Rightarrow> 'p image list result" where
  "predictDailyLST lib cat model startDate endDate aoi =
     (let days = sequence 0 (difference endDate startDate - 1)
      in ee_mapM (predictDay lib cat model startDate aoi) days)"

section \<open>Series assembly\<close>

text \<open>\<^verbatim>\<open>sort(property)\<close> orders a collection by a property, ascending; it is modelled as a
  stable sort in which an element without the property comes first.\<close>

definition sortBy :: "string \<Rightarrow> 'p image list \<Rightarrow> 'p image list" where
  "sortBy k imgs = sort_key (\<lambda>i. props i k) imgs"

definition filtered :: "'p image list \<Rightarrow> 'p image list" where
  "filtered dailyLST =
     sortBy ''system:time_start'' (filter (\<lambda>i. filter_neq ''noData'' 1 (props i)) dailyLST)"

section \<open>Feature engineering for the training period\<close>

definition ltConst :: "real \<Rightarrow> 'p image \<Rightarrow> 'p image" where
  "ltConst c img = mapBands (lift1 (\<lambda>v. if v < c then 1 else 0)) img"

definition gteConst :: "real \<Rightarrow> 'p image \<Rightarrow> 'p image" where
  "gteConst c img = mapBands (lift1 (\<lambda>v. if c \<le> v then 1 else 0)) img"

text \<open>\<^verbatim>\<open>input.where(test, value)\<close> replaces the pixels of the input where the test is not
  zero.\<close>

definition whereImage :: "'p image \<Rightarrow> real \<Rightarrow> 'p image \<Rightarrow> 'p image" where
  "whereImage test v input =
     mapBands (\<lambda>r p. case firstBand test p of
                       None \<Rightarrow> None
                     | Some t \<Rightarrow> if t \<noteq> 0 then Some v else r p) input"

text \<open>\<^verbatim>\<open>reduce(ee.Reducer.allNonZero())\<close> over the bands of an image: one band called
  \<^verbatim>\<open>all\<close>.\<close>

definition reduceAllNonZero :: "'p image \<Rightarrow> 'p image" where
  "reduceAllNonZero img =
     \<lparr>bands = [(''all'', \<lambda>p. let vs = List.map_filter (\<lambda>(n, r). r p) (bands img)
                             in if vs = [] then None
                                else Some (if list_all (\<lambda>v. v \<noteq> 0) vs then 1 else 0))],
      props = props img,
      footprint = footprint img\<rparr>"

definition cloudMaskLandsat :: "'p image \<Rightarrow> 'p image result" where
  "cloudMaskLandsat img =
     ee_bind (select ''QA_PIXEL'' img) (\<lambda>qa.
       let msk = reduceAllNonZero
                   (catImages (map (\<lambda>b. eqConst 0 (bitwiseAnd (push_bit b 1) qa)) [1, 2, 3, 4]))
       in ee_bind (select ''ST_B10'' img) (\<lambda>st.
            rename ''LST''
              (updateMask (subtractConst 273.15 (addConst 149 (multiplyConst 0.00341802 st)))
                 msk)))"

text \<open>The filter of the training period: the area and the dates from \<open>start\<close> (included) to
  \<open>end\<close> (excluded).\<close>

definition periodFilter :: "'p set \<Rightarrow> date \<Rightarrow> date \<Rightarrow> 'p image list \<Rightarrow> 'p image list" where
  "periodFilter roi startDate endDate imgs = filterDate startDate endDate (filterBounds roi imgs)"

definition lstLandsat :: "'p ee_lib \<Rightarrow> 'p catalog \<Rightarrow> 'p set \<Rightarrow> date \<Rightarrow> date \<Rightarrow> 'p image result" where
  "lstLandsat lib cat roi startDate endDate =
     ee_bind (ee_mapM cloudMaskLandsat (periodFilter roi startDate endDate (l8 cat @ l9 cat)))
       (\<lambda>masked.
     ee_bind (reduceCollection (reducer_mean lib) masked) (\<lambda>mean_img.
       Inr (clip roi mean_img)))"

definition strat :: "'p catalog \<Rightarrow> 'p image result" where
  "strat cat =
     (let e = srtm cat in
      rename ''elevation_class''
        (whereImage (gteConst 1000 e) 7
        (whereImage (andImage (gteConst 500 e) (ltConst 1000 e)) 6
        (whereImage (andImage (gteConst 100 e) (ltConst 500 e)) 5
        (whereImage (andImage (gteConst 50 e) (ltConst 100 e)) 4
        (whereImage (andImage (gteConst 10 e) (ltConst 50 e)) 3
        (whereImage (andImage (gteConst 0 e) (ltConst 10 e)) 2
        (whereImage (ltConst 0 e) 1
        (constantImage 0)))))))))"

text \<open>The training feature stack: the median Sentinel-2 composite of the period, the three
  indices, the terrain bands and the elevation class.\<close>

definition features :: "'p ee_lib \<Rightarrow> 'p catalog \<Rightarrow> 'p set \<Rightarrow> date \<Rightarrow> date \<Rightarrow> 'p image result" where
  "features lib cat roi startDate endDate =
     ee_bind (ee_mapM cloudMaskS2 (periodFilter roi startDate endDate (s2 cat))) (\<lambda>masked.
     ee_bind (reduceCollection (reducer_median lib) masked) (\<lambda>med.
       let s2Image = clip roi med in
       ee_bind (ee_bind (normalizedDifference lib ''B8'' ''B11'' s2Image) (rename ''NDMI'')) (\<lambda>ndmi.
       ee_bind (ee_bind (normalizedDifference lib ''B8'' ''B12'' s2Image) (rename ''NBR'')) (\<lambda>nbr.
       ee_bind (ee_bind (normalizedDifference lib ''B3'' ''B12'' s2Image) (rename ''MNDWI2'')) (\<lambda>mndwi2.
       ee_bind (rename ''elevation'' (srtm cat)) (\<lambda>elevation.
       ee_bind (tpi lib cat) (\<lambda>tpi_img.
       ee_bind (slope lib cat) (\<lambda>slope_img.
       ee_bind (strat cat) (\<lambda>strat_img.
         Inr (catImages [s2Image, ndmi, nbr, mndwi2, elevation, tpi_img, slope_img,
                         strat_img]))))))))))"

section \<open>Training samples and correlation analysis\<close>

definition sample ::
  "'p ee_lib \<Rightarrow> 'p catalog \<Rightarrow> 'p set \<Rightarrow> date \<Rightarrow> date \<Rightarrow> nat \<Rightarrow> sample list result" where
  "sample lib cat roi startDate endDate seed =
     ee_bind (features lib cat roi startDate endDate) (\<lambda>f.
     ee_bind (lstLandsat lib cat roi startDate endDate) (\<lambda>l.
       if ''elevation_class'' \<in> set (bandNames (addBands f [l]))
       then Inr (stratifiedSample lib (addBands f [l]) 30 1000 roi ''elevation_class'' seed)
       else Inl (BandNotFound ''elevation_class'')))"

definition predictors :: "string list" where
  "predictors =
     [''B4'', ''B8'', ''B11'', ''NDMI'', ''NBR'', ''MNDWI2'', ''elevation'', ''TPI'', ''slope'']"

definition label :: string where
  "label = ''LST''"

text \<open>The loop that pairs every predictor with the label.\<close>

primrec predictorsLst :: "string list \<Rightarrow> string \<Rightarrow> string list" where
  "predictorsLst [] lbl = []"
| "predictorsLst (b # bs) lbl = b # lbl # predictorsLst bs lbl"

text \<open>
  The Pearson reducer of the library, over the rows that have both columns: the
  product-moment correlation coefficient, undefined (not a number) when one of the columns
  has no variance or there are fewer than two rows.
\<close>

definition columns :: "string \<Rightarrow> string \<Rightarrow> sample list \<Rightarrow> (real \<times> real) list" where
  "columns a b samples =
     List.map_filter (\<lambda>s. case (s a, s b) of (Some x, Some y) \<Rightarrow> Some (x, y) | _ \<Rightarrow> None)
       samples"

definition pearsonsCorrelation :: "(real \<times> real) list \<Rightarrow> real option" where
  "pearsonsCorrelation ps =
     (let n = real (length ps);
          sx = (\<Sum>(x, y)\<leftarrow>ps. x);
          sy = (\<Sum>(x, y)\<leftarrow>ps. y);
          sxx = (\<Sum>(x, y)\<leftarrow>ps. x * x);
          syy = (\<Sum>(x, y)\<leftarrow>ps. y * y);
          sxy = (\<Sum>(x, y)\<leftarrow>ps. x * y);
          vx = n * sxx - sx * sx;
          vy = n * syy - sy * sy
      in if vx = 0 \<or> vy = 0 then None
         else Some ((n * sxy - sx * sy) / sqrt (vx * vy)))"

text \<open>\<^verbatim>\<open>reduceColumns(ee.Reducer.pearsonsCorrelation().repeat(n), selectors)\<close>: reducer
  \<open>i\<close> reads the columns \<open>2 i\<close> and \<open>2 i + 1\<close> of the selectors.\<close>

definition reduceColumns :: "nat \<Rightarrow> string list \<Rightarrow> sample list \<Rightarrow> real option list result" where
  "reduceColumns n selectors samples =
     (if length selectors = 2 * n
      then Inr (map (\<lambda>i. pearsonsCorrelation
                            (columns (selectors ! (2 * i)) (selectors ! (2 * i + 1)) samples))
                  [0..<n])
      else Inl (SelectorArity (length selectors) (2 * n)))"

record ranked =
  feature :: string
  r2 :: "real option"

definition correlation :: "string list \<Rightarrow> string \<Rightarrow> sample list \<Rightarrow> ranked list result" where
  "correlation ps lbl samples =
     ee_bind (reduceColumns (length ps) (predictorsLst ps lbl) samples) (\<lambda>corr.
       Inr (map (\<lambda>(i, b). \<lparr>feature = b, r2 = map_option (\<lambda>r. r ^ 2) (corr ! i)\<rparr>)
              (enumerate 0 ps)))"

text \<open>\<^verbatim>\<open>limit(n, property, ascending)\<close> sorts by the property and keeps the first \<open>n\<close>
  elements.  The sort is modelled as stable, with an undefined score below every number.\<close>

definition limit :: "nat \<Rightarrow> ('a \<Rightarrow> 'k::linorder) \<Rightarrow> bool \<Rightarrow> 'a list \<Rightarrow> 'a list" where
  "limit n key ascending xs =
     take n (if ascending then sort_key key xs else rev (sort_key key (rev xs)))"

definition topCorr :: "nat \<Rightarrow> ranked list \<Rightarrow> string list" where
  "topCorr finalPredictorsSize corr = map feature (limit (finalPredictorsSize * 2) r2 False corr)"

definition modelFeatures :: "nat \<Rightarrow> ranked list \<Rightarrow> string list" where
  "modelFeatures finalPredictorsSize corr = take finalPredictorsSize (topCorr finalPredictorsSize corr)"

section \<open>Train and test split, model fit\<close>

text \<open>\<^verbatim>\<open>randomColumn()\<close> adds the property \<^verbatim>\<open>random\<close> to every sample, drawn by the
  library's generator from the seed (0 when none is given) and the position of the sample.\<close>

definition randomColumn :: "'p ee_lib \<Rightarrow> nat \<Rightarrow> sample list \<Rightarrow> sample list" where
  "randomColumn lib seed samples =
     map (\<lambda>(k, s). s(''random'' \<mapsto> random_draw lib seed k)) (enumerate 0 samples)"

definition train :: "real \<Rightarrow> sample list \<Rightarrow> sample list" where
  "train train_ratio randomised = filter (filter_lte ''random'' train_ratio) randomised"

definition model :: "'p ee_lib \<Rightarrow> sample list \<Rightarrow> string \<Rightarrow> string list \<Rightarrow> classifier" where
  "model lib training lbl fs =
     \<lparr>inputProperties = fs, predict = smileRandomForest lib 50 training lbl fs\<rparr>"

section \<open>The script\<close>

text \<open>The parameters at the head of the script and the seed of the sampler.\<close>

record 'p config =
  cfg_roi :: "'p set"
  cfg_start :: date
  cfg_end :: date
  cfg_finalPredictorsSize :: nat
  cfg_train_ratio :: real
  cfg_seed :: nat

definition run_sample :: "'p ee_lib \<Rightarrow> 'p catalog \<Rightarrow> 'p config \<Rightarrow> sample list result" where
  "run_sample lib cat c = sample lib cat (cfg_roi c) (cfg_start c) (cfg_end c) (cfg_seed c)"

definition run_correlation :: "'p ee_lib \<Rightarrow> 'p catalog \<Rightarrow> 'p config \<Rightarrow> ranked list result" where
  "run_correlation lib cat c = ee_bind (run_sample lib cat c) (correlation predictors label)"

definition run_modelFeatures :: "'p ee_lib \<Rightarrow> 'p catalog \<Rightarrow> 'p config \<Rightarrow> string list result" where
  "run_modelFeatures lib cat c =
     ee_bind (run_correlation lib cat c) (\<lambda>corr. Inr (modelFeatures (cfg_finalPredictorsSize c) corr))"

definition run_train :: "'p ee_lib \<Rightarrow> 'p catalog \<Rightarrow> 'p config \<Rightarrow> sample list result" where
  "run_train lib cat c =
     ee_bind (run_sample lib cat c) (\<lambda>s. Inr (train (cfg_train_ratio c) (randomColumn lib 0 s)))"

definition run_dailyLST :: "'p ee_lib \<Rightarrow> 'p catalog \<Rightarrow> 'p config \<Rightarrow> 'p image list result" where
  "run_dailyLST lib cat c =
     ee_bind (run_modelFeatures lib cat c) (\<lambda>fs.
     ee_bind (run_train lib cat c) (\<lambda>training.
       predictDailyLST lib cat (model lib training label fs) (cfg_start c) (cfg_end c) (cfg_roi c)))"


section \<open>Observations and well-formed inputs\<close>

text \<open>The timestamp of an image, the flag the series assembler filters on, and the
  properties of the image a computation returns.\<close>

definition timeStart :: "'p image \<Rightarrow> real option" where
  "timeStart img = props img ''system:time_start''"

definition noDataFlag :: "'p image \<Rightarrow> bool" where
  "noDataFlag img = filter_eq ''noData'' 1 (props img)"

definition getProperty :: "string \<Rightarrow> 'p image result \<Rightarrow> real option" where
  "getProperty k r = (case r of Inl e \<Rightarrow> None | Inr i \<Rightarrow> props i k)"

definition propertyNames :: "'p image result \<Rightarrow> string set" where
  "propertyNames r = (case r of Inl e \<Rightarrow> {} | Inr i \<Rightarrow> dom (props i))"

text \<open>The band names the prediction function adds to the Sentinel-2 composite.\<close>

definition derivedNames :: "string list" where
  "derivedNames = [''NDMI'', ''NBR'', ''MNDWI2'', ''elevation'', ''TPI'', ''slope'']"

text \<open>
  Inputs on which no library operation of the prediction function is rejected: every
  Sentinel-2 image has the band list \<open>bs\<close>, which has the quality band and the four bands
  the indices read; the elevation image has one band; the model reads bands of the daily
  feature stack.
\<close>

definition inputs_ok :: "string list \<Rightarrow> 'p catalog \<Rightarrow> classifier \<Rightarrow> bool" where
  "inputs_ok bs cat m =
     (list_all (\<lambda>i. bandNames i = bs) (s2 cat) \<and>
      list_all (\<lambda>n. n \<in> set bs) [''QA60'', ''B3'', ''B8'', ''B11'', ''B12''] \<and>
      length (bands (srtm cat)) = 1 \<and>
      list_all (\<lambda>n. n \<in> set (filter matchesB bs @ derivedNames)) (inputProperties m))"




text \<open>The entry of a candidate in the feature ranking, and the complete ranking: all
  candidates by descending squared correlation.\<close>

definition score :: "string \<Rightarrow> sample list \<Rightarrow> string \<Rightarrow> ranked" where
  "score lbl samples b =
     \<lparr>feature = b, r2 = map_option (\<lambda>r. r ^ 2) (pearsonsCorrelation (columns b lbl samples))\<rparr>"

definition ranking :: "string list \<Rightarrow> string \<Rightarrow> sample list \<Rightarrow> ranked list" where
  "ranking ps lbl samples = limit (length ps) r2 False (map (score lbl samples) ps)"

section \<open>A small archive for evaluation\<close>

text \<open>One pixel, a clear Sentinel-2 image on day 1 and a cloudy one on day 3.\<close>

definition demo_scene :: "date \<Rightarrow> real \<Rightarrow> nat image" where
  "demo_scene day cloudy =
     \<lparr>bands = map (\<lambda>n. (n, \<lambda>p. Some 0)) [''B3'', ''B4'', ''B8'', ''B11'', ''B12'', ''QA60''],
      props = [''system:time_start'' \<mapsto> millis day, ''CLOUDY_PIXEL_PERCENTAGE'' \<mapsto> cloudy],
      footprint = {0}\<rparr>"

definition demo_bands :: "string list" where
  "demo_bands = [''B3'', ''B4'', ''B8'', ''B11'', ''B12'', ''QA60'']"

definition demo_catalog :: "nat catalog" where
  "demo_catalog =
     \<lparr>srtm = \<lparr>bands = [(''elevation'', \<lambda>p. Some 100)], props = Map.empty, footprint = UNIV\<rparr>,
      l8 = [],
      l9 = [],
      s2 = [demo_scene 1 5, demo_scene 3 50]\<rparr>"

definition demo_model :: classifier where
  "demo_model = \<lparr>inputProperties = [''B4'', ''NDMI'', ''elevation''], predict = sum_list\<rparr>"

definition demo_draw :: "nat \<Rightarrow> nat \<Rightarrow> real" where
  "demo_draw sd k = (if k = 1 then 0.9 else 0.5)"

definition demo_lib :: "nat ee_lib" where
  "demo_lib =
     \<lparr>reducer_median = (\<lambda>vs. case vs of [] \<Rightarrow> 0 | v # _ \<Rightarrow> v),
      reducer_mean = (\<lambda>vs. sum_list vs / real (length vs)),
      pixel_nd = (\<lambda>x y. if x + y = 0 then None else Some ((x - y) / (x + y))),
      focalMean = (\<lambda>radius r. r),
      terrain_slope = (\<lambda>r. r),
      stratifiedSample = (\<lambda>img scale n region cls sd. [[''LST'' \<mapsto> real sd]]),
      random_draw = demo_draw,
      smileRandomForest = (\<lambda>trees ss lbl fs vs. 0)\<rparr>"

definition demo_valid :: "real \<Rightarrow> nat image" where
  "demo_valid t = \<lparr>bands = [(''LST'', \<lambda>p. Some 25)], props = [''system:time_start'' \<mapsto> t], footprint = UNIV\<rparr>"

definition demo_nodata :: "real \<Rightarrow> nat image" where
  "demo_nodata t = \<lparr>bands = [(''LST'', \<lambda>p. None)], props = [''system:time_start'' \<mapsto> t, ''noData'' \<mapsto> 1], footprint = UNIV\<rparr>"

text \<open>Three samples: \<^verbatim>\<open>A\<close> follows the label, \<^verbatim>\<open>B\<close> is uncorrelated with it and \<^verbatim>\<open>Z\<close>
  is constant.\<close>

definition demo_samples :: "sample list" where
  "demo_samples =
     [[''A'' \<mapsto> 1, ''B'' \<mapsto> 1, ''Z'' \<mapsto> 5, ''LST'' \<mapsto> 1],
      [''A'' \<mapsto> 2, ''B'' \<mapsto> 0, ''Z'' \<mapsto> 5, ''LST'' \<mapsto> 2],
      [''A'' \<mapsto> 3, ''B'' \<mapsto> 1, ''Z'' \<mapsto> 5, ''LST'' \<mapsto> 3]]"

text \<open>Two configurations that differ in the number of predictors and the split ratio only,
  and a third with another seed.\<close>

definition demo_config :: "nat \<Rightarrow> real \<Rightarrow> nat \<Rightarrow> nat config" where
  "demo_config k r sd =
     \<lparr>cfg_roi = {0}, cfg_start = 0, cfg_end = 5, cfg_finalPredictorsSize = k,
      cfg_train_ratio = r, cfg_seed = sd\<rparr>"

section \<open>Properties of the library operations\<close>

lemma ee_mapM_Inr_iff: "ee_mapM f xs = Inr ys \<longleftrightarrow> map f xs = map Inr ys"
proof (induction xs arbitrary: ys)
  case Nil
  show ?case by auto
next
  case (Cons x xs)
  show ?case
  proof (cases "f x")
    case (Inl e)
    then show ?thesis by (cases ys) auto
  next
    case fx: (Inr y)
    show ?thesis
    proof (cases "ee_mapM f xs")
      case (Inl e)
      have "map f xs \<noteq> map Inr zs" for zs
        using Cons.IH [of zs] Inl by simp
      then show ?thesis using fx Inl by (cases ys) auto
    next
      case (Inr zs)
      then have "map f xs = map Inr zs" using Cons.IH by simp
      then show ?thesis using fx Inr by (cases ys) (auto simp: inj_map_eq_map)
    qed
  qed
qed

lemma ee_mapM_length: "ee_mapM f xs = Inr ys \<Longrightarrow> length ys = length xs"
  by (metis ee_mapM_Inr_iff length_map)

lemma ee_mapM_nth: "ee_mapM f xs = Inr ys \<Longrightarrow> k < length xs \<Longrightarrow> f (xs ! k) = Inr (ys ! k)"
  by (metis ee_mapM_Inr_iff length_map nth_map)

lemma ee_mapM_total: "(\<And>x. x \<in> set xs \<Longrightarrow> \<exists>y. f x = Inr y) \<Longrightarrow> \<exists>ys. ee_mapM f xs = Inr ys"
proof (induction xs)
  case Nil
  show ?case by simp
next
  case (Cons x xs)
  obtain y where "f x = Inr y" using Cons.prems [of x] by auto
  moreover obtain ys where "ee_mapM f xs = Inr ys" using Cons by auto
  ultimately show ?case by simp
qed

lemma rename_Inr: "rename n img = Inr j \<Longrightarrow> bandNames j = [n] \<and> props j = props img \<and> footprint j = footprint img"
  by (auto simp: rename_def bandNames_def split: list.splits prod.splits)

lemma rename_total: "length (bands img) = 1 \<Longrightarrow> \<exists>j. rename n img = Inr j"
  by (cases "bands img") (auto simp: rename_def split: list.splits)

lemma ee_bind_Inr: "ee_bind m f = Inr y \<longleftrightarrow> (\<exists>x. m = Inr x \<and> f x = Inr y)"
  by (cases m) (auto simp: ee_bind_def)

lemma bandNames_mapBands [simp]: "bandNames (mapBands f img) = bandNames img"
  by (simp add: bandNames_def mapBands_def case_prod_unfold)

lemma props_mapBands [simp]: "props (mapBands f img) = props img"
  by (simp add: mapBands_def)

lemma footprint_mapBands [simp]: "footprint (mapBands f img) = footprint img"
  by (simp add: mapBands_def)

lemma length_bands_mapBands [simp]: "length (bands (mapBands f img)) = length (bands img)"
  by (simp add: mapBands_def)

lemma map_of_bands_None: "map_of (bands img) n = None \<longleftrightarrow> n \<notin> set (bandNames img)"
  by (simp add: bandNames_def map_of_eq_None_iff)

lemma select_Inr: "select n img = Inr j \<Longrightarrow> bandNames j = [n] \<and> props j = props img"
  by (auto simp: select_def bandNames_def split: option.splits)

lemma select_total: "n \<in> set (bandNames img) \<Longrightarrow> \<exists>j. select n img = Inr j"
  using map_of_bands_None [of img n] by (auto simp: select_def split: option.splits)

lemma bandNames_selectB [simp]: "bandNames (selectB img) = filter matchesB (bandNames img)"
  by (simp add: selectB_def bandNames_def filter_map comp_def case_prod_unfold)

lemma cloudMaskS2_Inr: "cloudMaskS2 i = Inr j \<Longrightarrow> bandNames j = filter matchesB (bandNames i)"
  by (auto simp: cloudMaskS2_def ee_bind_Inr Let_def divideConst_def updateMask_def)

lemma cloudMaskS2_total: "''QA60'' \<in> set (bandNames i) \<Longrightarrow> \<exists>j. cloudMaskS2 i = Inr j"
  using select_total [of "''QA60''" i] by (auto simp: cloudMaskS2_def ee_bind_def Let_def)

lemma reduceCollection_Inr:
  "reduceCollection red (i # rest) = Inr med \<Longrightarrow> bandNames med = bandNames i \<and> props med = Map.empty"
  by (auto simp: reduceCollection_def bandNames_def map_fst_enumerate comp_def case_prod_unfold
      split: if_splits)


lemma reduceCollection_total:
  "(\<And>j. j \<in> set imgs \<Longrightarrow> bandNames j = bs) \<Longrightarrow> \<exists>med. reduceCollection red imgs = Inr med"
  by (cases imgs) (auto simp: reduceCollection_def list_all_iff)

lemma bandNames_clip [simp]: "bandNames (clip r img) = bandNames img"
  by (simp add: clip_def bandNames_def mapBands_def case_prod_unfold comp_def)

lemma props_clip [simp]: "props (clip r img) = props img"
  by (simp add: clip_def)

lemma normalizedDifference_Inr:
  "normalizedDifference lib a b img = Inr nd \<Longrightarrow> length (bands nd) = 1 \<and> props nd = Map.empty"
  by (auto simp: normalizedDifference_def ee_bind_Inr)

lemma normalizedDifference_total:
  "a \<in> set (bandNames img) \<Longrightarrow> b \<in> set (bandNames img) \<Longrightarrow> \<exists>nd. normalizedDifference lib a b img = Inr nd"
  using select_total [of a img] select_total [of b img]
  by (auto simp: normalizedDifference_def ee_bind_def)

lemma index_total:
  assumes "a \<in> set (bandNames img)" "b \<in> set (bandNames img)"
  shows "\<exists>j. ee_bind (normalizedDifference lib a b img) (rename n) = Inr j"
proof -
  obtain nd where nd: "normalizedDifference lib a b img = Inr nd"
    using normalizedDifference_total [OF assms] by blast
  then obtain j where "rename n nd = Inr j"
    using rename_total normalizedDifference_Inr by blast
  with nd show ?thesis by (auto simp: ee_bind_def)
qed

lemma index_Inr:
  "ee_bind (normalizedDifference lib a b img) (rename n) = Inr j \<Longrightarrow> bandNames j = [n]"
  by (auto simp: ee_bind_Inr dest: rename_Inr)

lemma bandNames_addBands [simp]:
  "bandNames (addBands img others) = bandNames img @ concat (map bandNames others)"
  unfolding bandNames_def by (simp add: addBands_def map_concat comp_def)

lemma props_addBands [simp]: "props (addBands img others) = props img"
  by (simp add: addBands_def)

lemma tpi_Inr: "tpi lib cat = Inr j \<Longrightarrow> bandNames j = [''TPI'']"
  by (auto simp: tpi_def dest: rename_Inr)

lemma tpi_total: "length (bands (srtm cat)) = 1 \<Longrightarrow> \<exists>j. tpi lib cat = Inr j"
  unfolding tpi_def by (rule rename_total) (simp add: subtractImage_def)

lemma slope_Inr: "slope lib cat = Inr j \<Longrightarrow> bandNames j = [''slope'']"
  by (auto simp: slope_def dest: rename_Inr)

lemma slope_total: "\<exists>j. slope lib cat = Inr j"
  unfolding slope_def by (rule rename_total) (simp add: terrainSlope_def)

lemma dayFeatures_Inr:
  assumes "dayFeatures lib cat aoi (i # rest) = Inr a"
  shows "bandNames a = bandNames i @ derivedNames" and "props a = Map.empty"
proof -
  from assms obtain med ndmi nbr mndwi2 elevation t sl where
    med: "reduceCollection (reducer_median lib) (i # rest) = Inr med"
    and 1: "ee_bind (normalizedDifference lib ''B8'' ''B11'' (clip aoi med)) (rename ''NDMI'') = Inr ndmi"
    and 2: "ee_bind (normalizedDifference lib ''B8'' ''B12'' (clip aoi med)) (rename ''NBR'') = Inr nbr"
    and 3: "ee_bind (normalizedDifference lib ''B3'' ''B12'' (clip aoi med)) (rename ''MNDWI2'') = Inr mndwi2"
    and 4: "rename ''elevation'' (srtm cat) = Inr elevation"
    and 5: "tpi lib cat = Inr t"
    and 6: "slope lib cat = Inr sl"
    and a: "a = addBands (clip aoi med) [ndmi, nbr, mndwi2, elevation, t, sl]"
    unfolding dayFeatures_def Let_def ee_bind_Inr [of "reduceCollection _ _"]
      ee_bind_Inr [of "ee_bind _ _"] ee_bind_Inr [of "rename _ _"]
      ee_bind_Inr [of "tpi _ _"] ee_bind_Inr [of "slope _ _"]
    by (metis Inr_inject)
  show "bandNames a = bandNames i @ derivedNames"
    using reduceCollection_Inr [OF med] index_Inr [OF 1] index_Inr [OF 2] index_Inr [OF 3]
      rename_Inr [OF 4] tpi_Inr [OF 5] slope_Inr [OF 6]
    by (simp add: a derivedNames_def)
  show "props a = Map.empty"
    using reduceCollection_Inr [OF med] by (simp add: a)
qed

lemma dayFeatures_total:
  assumes "\<And>j. j \<in> set (i # rest) \<Longrightarrow> bandNames j = ns"
    and "''B3'' \<in> set ns" "''B8'' \<in> set ns" "''B11'' \<in> set ns" "''B12'' \<in> set ns"
    and "length (bands (srtm cat)) = 1"
  shows "\<exists>a. dayFeatures lib cat aoi (i # rest) = Inr a"
proof -
  obtain med where med: "reduceCollection (reducer_median lib) (i # rest) = Inr med"
    using reduceCollection_total [of "i # rest" ns] assms(1) by blast
  have ns: "bandNames (clip aoi med) = ns"
    using reduceCollection_Inr [OF med] assms(1) by simp
  obtain ndmi where 1: "ee_bind (normalizedDifference lib ''B8'' ''B11'' (clip aoi med)) (rename ''NDMI'') = Inr ndmi"
    using index_total [of "''B8''" "clip aoi med" "''B11''"] ns assms by blast
  obtain nbr where 2: "ee_bind (normalizedDifference lib ''B8'' ''B12'' (clip aoi med)) (rename ''NBR'') = Inr nbr"
    using index_total [of "''B8''" "clip aoi med" "''B12''"] ns assms by blast
  obtain mndwi2 where 3: "ee_bind (normalizedDifference lib ''B3'' ''B12'' (clip aoi med)) (rename ''MNDWI2'') = Inr mndwi2"
    using index_total [of "''B3''" "clip aoi med" "''B12''"] ns assms by blast
  obtain elevation where 4: "rename ''elevation'' (srtm cat) = Inr elevation"
    using rename_total assms(6) by blast
  obtain t where 5: "tpi lib cat = Inr t"
    using tpi_total assms(6) by blast
  obtain sl where 6: "slope lib cat = Inr sl"
    using slope_total by blast
  show ?thesis
    by (simp add: dayFeatures_def Let_def med 1 2 3 4 5 6 ee_bind_def [of "Inr _"])
qed

lemma classify_Inr: "classify m out img = Inr c \<Longrightarrow> bandNames c = [out] \<and> props c = props img"
  by (auto simp: classify_def bandNames_def split: option.splits)

lemma classify_total:
  assumes "set (inputProperties m) \<subseteq> set (bandNames img)"
  shows "\<exists>c. classify m out img = Inr c"
proof -
  have "find (\<lambda>n. map_of (bands img) n = None) (inputProperties m) = None"
    using assms by (auto simp: find_None_iff map_of_bands_None)
  then show ?thesis by (simp add: classify_def)
qed

section \<open>Properties of the daily prediction\<close>

lemma predictDay_valid:
  assumes q: "s2query cat aoi (advance s off) \<noteq> []"
    and r: "predictDay lib cat m s aoi off = Inr img"
  shows "bandNames img = [''LST'']"
    and "props img = [''system:time_start'' \<mapsto> millis (s + off)]"
proof -
  from r obtain s2day where s2day: "ee_mapM cloudMaskS2 (s2query cat aoi (advance s off)) = Inr s2day"
    and rest: "(if 0 < length s2day
        then ee_bind (dayFeatures lib cat aoi s2day) (\<lambda>all_bands.
             ee_bind (classify m ''LST'' all_bands) (\<lambda>c.
               rename ''LST'' (setProp ''system:time_start'' (millis (advance s off)) c)))
        else ee_bind (rename ''LST'' emptyImage) (\<lambda>e.
               Inr (setProp ''noData'' 1 (setProp ''system:time_start'' (millis (advance s off)) e)))) = Inr img"
    unfolding predictDay_def Let_def ee_bind_Inr [of "ee_mapM _ _"] by blast
  have "length s2day = length (s2query cat aoi (advance s off))"
    using ee_mapM_length [OF s2day] .
  with q have pos: "0 < length s2day" by simp
  then obtain i more where cons: "s2day = i # more" by (cases s2day) auto
  from rest pos obtain a c where a: "dayFeatures lib cat aoi s2day = Inr a"
    and c: "classify m ''LST'' a = Inr c"
    and img: "rename ''LST'' (setProp ''system:time_start'' (millis (advance s off)) c) = Inr img"
    by (auto simp: ee_bind_Inr)
  have "props a = Map.empty" using dayFeatures_Inr(2) a cons by blast
  then have "props c = Map.empty" using classify_Inr [OF c] by simp
  then show "props img = [''system:time_start'' \<mapsto> millis (s + off)]"
    using rename_Inr [OF img] by (simp add: setProp_def advance_def)
  show "bandNames img = [''LST'']" using rename_Inr [OF img] by simp
qed

lemma predictDay_nodata:
  assumes "s2query cat aoi (advance s off) = []"
  shows "predictDay lib cat m s aoi off =
    Inr \<lparr>bands = [(''LST'', \<lambda>p. None)],
         props = [''system:time_start'' \<mapsto> millis (s + off), ''noData'' \<mapsto> 1],
         footprint = UNIV\<rparr>"
  using assms
  by (simp add: predictDay_def ee_bind_def rename_def emptyImage_def setProp_def advance_def)

lemma predictDay_time:
  assumes "predictDay lib cat m s aoi off = Inr img"
  shows "timeStart img = Some (millis (s + off))"
proof (cases "s2query cat aoi (advance s off) = []")
  case True
  then show ?thesis using assms predictDay_nodata [OF True, of lib m] by (auto simp: timeStart_def)
next
  case False
  then show ?thesis using predictDay_valid(2) [OF False assms] by (simp add: timeStart_def)
qed

lemma s2query_subset: "set (s2query cat aoi day) \<subseteq> set (s2 cat)"
  by (auto simp: s2query_def filterDate_def filterBounds_def)

lemma predictDay_total:
  assumes ok: "inputs_ok bs cat m"
  shows "\<exists>img. predictDay lib cat m s aoi off = Inr img"
proof (cases "s2query cat aoi (advance s off) = []")
  case True
  then show ?thesis using predictDay_nodata [OF True] by blast
next
  case False
  let ?q = "s2query cat aoi (advance s off)"
  from ok have names: "\<And>i. i \<in> set (s2 cat) \<Longrightarrow> bandNames i = bs"
    and req: "''QA60'' \<in> set bs" "''B3'' \<in> set bs" "''B8'' \<in> set bs" "''B11'' \<in> set bs" "''B12'' \<in> set bs"
    and terrain: "length (bands (srtm cat)) = 1"
    and inputs: "set (inputProperties m) \<subseteq> set (filter matchesB bs @ derivedNames)"
    by (auto simp: inputs_ok_def list_all_iff)
  have "\<exists>j. cloudMaskS2 i = Inr j" if "i \<in> set ?q" for i
    using that s2query_subset [of cat aoi] names req(1) cloudMaskS2_total [of i] by auto
  then obtain s2day where s2day: "ee_mapM cloudMaskS2 ?q = Inr s2day"
    using ee_mapM_total [of ?q cloudMaskS2] by blast
  have len: "length s2day = length ?q" using ee_mapM_length [OF s2day] .
  have masked: "bandNames j = filter matchesB bs" if "j \<in> set s2day" for j
  proof -
    from that obtain k where k: "k < length s2day" "j = s2day ! k"
      by (auto simp: in_set_conv_nth)
    then have "cloudMaskS2 (?q ! k) = Inr j" using ee_mapM_nth [OF s2day] len by simp
    moreover have "?q ! k \<in> set (s2 cat)" using k len s2query_subset [of cat aoi] nth_mem by fastforce
    ultimately show ?thesis using cloudMaskS2_Inr names by fastforce
  qed
  from False len obtain i more where cons: "s2day = i # more" by (cases s2day) auto
  have B: "''B3'' \<in> set (filter matchesB bs)" "''B8'' \<in> set (filter matchesB bs)"
      "''B11'' \<in> set (filter matchesB bs)" "''B12'' \<in> set (filter matchesB bs)"
    using req by (simp_all add: matchesB_def)
  obtain a where a: "dayFeatures lib cat aoi s2day = Inr a"
    using dayFeatures_total [of i more "filter matchesB bs" cat lib aoi] masked B terrain cons by auto
  have "bandNames a = filter matchesB bs @ derivedNames"
    using dayFeatures_Inr(1) [of lib cat aoi i more a] a cons masked by simp
  then obtain c where c: "classify m ''LST'' a = Inr c"
    using classify_total [of m a] inputs by auto
  have "length (bands (setProp ''system:time_start'' (millis (advance s off)) c)) = 1"
    using classify_Inr [OF c] by (auto simp: setProp_def bandNames_def)
  then obtain img where img: "rename ''LST'' (setProp ''system:time_start'' (millis (advance s off)) c) = Inr img"
    using rename_total by blast
  have "s2day \<noteq> []" using cons by simp
  then show ?thesis
    by (simp add: predictDay_def Let_def s2day a c img ee_bind_def [of "Inr _"])
qed

lemma predictDailyLST_Inr:
  assumes "predictDailyLST lib cat m s e aoi = Inr series"
  shows "length series = nat (e - s)"
    and "k < nat (e - s) \<Longrightarrow> predictDay lib cat m s aoi (int k) = Inr (series ! k)"
proof -
  from assms have mm: "ee_mapM (predictDay lib cat m s aoi) [0..e - s - 1] = Inr series"
    by (simp add: predictDailyLST_def sequence_def difference_def)
  show len: "length series = nat (e - s)" using ee_mapM_length [OF mm] by simp
  show "predictDay lib cat m s aoi (int k) = Inr (series ! k)" if "k < nat (e - s)"
    using ee_mapM_nth [OF mm, of k] that by simp
qed

lemma predictDailyLST_total:
  assumes "inputs_ok bs cat m"
  shows "\<exists>series. predictDailyLST lib cat m s e aoi = Inr series"
  unfolding predictDailyLST_def Let_def
  by (rule ee_mapM_total) (rule predictDay_total [OF assms])

lemma predictDailyLST_times:
  assumes "predictDailyLST lib cat m s e aoi = Inr series"
  shows "map timeStart series = map (\<lambda>d. Some (millis d)) [s..e - 1]"
proof (rule nth_equalityI)
  show "length (map timeStart series) = length (map (\<lambda>d. Some (millis d)) [s..e - 1])"
    using predictDailyLST_Inr(1) [OF assms] by simp
next
  fix k assume "k < length (map timeStart series)"
  then have k: "k < nat (e - s)" using predictDailyLST_Inr(1) [OF assms] by simp
  then have "timeStart (series ! k) = Some (millis (s + int k))"
    using predictDailyLST_Inr(2) [OF assms k] predictDay_time by blast
  then show "map timeStart series ! k = map (\<lambda>d. Some (millis d)) [s..e - 1] ! k"
    using k predictDailyLST_Inr(1) [OF assms] by simp
qed

subsection \<open>The small archive\<close>

lemma demo_inputs_ok: "inputs_ok demo_bands demo_catalog demo_model"
  by (simp add: inputs_ok_def demo_bands_def demo_catalog_def demo_model_def demo_scene_def
      bandNames_def derivedNames_def matchesB_def)

lemma demo_query_0: "s2query demo_catalog {0} 0 = []"
  by (simp add: s2query_def filterDate_def filterBounds_def demo_catalog_def demo_scene_def
      advance_def millis_def filter_lt_def)

lemma demo_query_1: "s2query demo_catalog {0} 1 = [demo_scene 1 5]"
  by (simp add: s2query_def filterDate_def filterBounds_def demo_catalog_def demo_scene_def
      advance_def millis_def filter_lt_def)

lemma demo_query_2: "s2query demo_catalog {0} 2 = []"
  by (simp add: s2query_def filterDate_def filterBounds_def demo_catalog_def demo_scene_def
      advance_def millis_def filter_lt_def)


subsection \<open>Timestamps and the filtered view\<close>

lemma millis_strict_mono: "a < b \<Longrightarrow> millis a < millis b"
  by (simp add: millis_def)

lemma millis_inj: "millis a = millis b \<longleftrightarrow> a = b"
  by (simp add: millis_def)

lemma day_stamps_increasing: "sorted_wrt (<) (map (\<lambda>d. Some (millis d)) [s..t])"
proof -
  have "sorted_wrt (\<lambda>a b. Some (millis a) < Some (millis b)) [s..t]"
    by (rule sorted_wrt_mono_rel [OF _ sorted_wrt_upto]) (simp add: millis_strict_mono)
  then show ?thesis by (simp add: sorted_wrt_map)
qed

lemma day_stamps_by_offset:
  "map (\<lambda>d. Some (millis d)) [s..e - 1] = map (\<lambda>k. Some (millis (s + int k))) [0..<nat (e - s)]"
  by (rule nth_equalityI) auto

lemma demo_day_1:
  "\<exists>img. predictDay demo_lib demo_catalog demo_model 0 {0} 1 = Inr img \<and>
     bandNames img = [''LST''] \<and> props img = [''system:time_start'' \<mapsto> 86400000]"
proof -
  have q: "s2query demo_catalog {0} (advance 0 1) \<noteq> []"
    using demo_query_1 by (simp add: advance_def)
  obtain img where r: "predictDay demo_lib demo_catalog demo_model 0 {0} 1 = Inr img"
    using predictDay_total [OF demo_inputs_ok] by blast
  show ?thesis
    using predictDay_valid [OF q r] r by (simp add: millis_def)
qed

lemma filtered_mset:
  "mset (filtered xs) = filter_mset (\<lambda>i. \<not> noDataFlag i) (mset xs)"
  by (simp add: filtered_def sortBy_def filter_neq_def noDataFlag_def)

lemma filtered_sorted: "sorted (map timeStart (filtered xs))"
proof -
  show ?thesis by (simp add: filtered_def sortBy_def timeStart_def [abs_def])
qed

lemma filtered_of_sorted:
  assumes "sorted (map timeStart xs)"
  shows "filtered xs = filter (\<lambda>i. \<not> noDataFlag i) xs"
proof -
  note eq = timeStart_def [abs_def]
  have "sorted (map timeStart (filter (\<lambda>i. \<not> noDataFlag i) xs))"
    using assms by (rule sorted_filter)
  then have "sort_key timeStart (filter (\<lambda>i. \<not> noDataFlag i) xs) = filter (\<lambda>i. \<not> noDataFlag i) xs"
    by (rule sort_key_id_if_sorted)
  then show ?thesis by (simp add: filtered_def sortBy_def filter_neq_def noDataFlag_def [abs_def] eq)
qed

lemma predictDay_flag:
  assumes "predictDay lib cat m s aoi off = Inr img"
  shows "noDataFlag img \<longleftrightarrow> s2query cat aoi (advance s off) = []"
proof (cases "s2query cat aoi (advance s off) = []")
  case True
  then show ?thesis using assms predictDay_nodata [OF True, of lib m]
    by (auto simp: noDataFlag_def filter_eq_def)
next
  case False
  then show ?thesis using predictDay_valid(2) [OF False assms]
    by (simp add: noDataFlag_def filter_eq_def)
qed

section \<open>Properties of the training feature stack\<close>
















section \<open>Claims about the inference engine and the series assembler\<close>

text \<open>
  Claim C1.  A run of the inference engine over the dates from \<open>s\<close> (included) to \<open>e\<close>
  (excluded) that completes returns a series with exactly one image per requested day: entry
  \<open>k\<close> is the outcome of day \<open>s + k\<close>, whether or not that day has source imagery; the
  timestamps are those of the consecutive days, strictly increasing and without duplicates.
  The full view of the series assembler is this collection itself.  The run completes on
  every well-formed archive and model.
\<close>

theorem series_one_entry_per_day:
  "(\<forall>series. predictDailyLST lib cat m s e aoi = Inr series \<longrightarrow>
       length series = nat (e - s) \<and>
       (\<forall>k < nat (e - s). predictDay lib cat m s aoi (int k) = Inr (series ! k)) \<and>
       map timeStart series = map (\<lambda>k. Some (millis (s + int k))) [0..<nat (e - s)] \<and>
       sorted_wrt (<) (map timeStart series) \<and>
       distinct (map timeStart series))
   \<and> (inputs_ok bs cat m \<longrightarrow> (\<exists>series. predictDailyLST lib cat m s e aoi = Inr series))"
proof (intro conjI allI impI)
  fix series assume r: "predictDailyLST lib cat m s e aoi = Inr series"
  show "length series = nat (e - s)" using predictDailyLST_Inr(1) [OF r] .
  show "predictDay lib cat m s aoi (int k) = Inr (series ! k)" if "k < nat (e - s)" for k
    using predictDailyLST_Inr(2) [OF r that] .
  have t: "map timeStart series = map (\<lambda>d. Some (millis d)) [s..e - 1]"
    using predictDailyLST_times [OF r] .
  show "map timeStart series = map (\<lambda>k. Some (millis (s + int k))) [0..<nat (e - s)]"
    using t day_stamps_by_offset by simp
  show inc: "sorted_wrt (<) (map timeStart series)"
    using t day_stamps_increasing by simp
  show "distinct (map timeStart series)"
    using inc strict_sorted_iff by blast
next
  assume "inputs_ok bs cat m"
  then show "\<exists>series. predictDailyLST lib cat m s e aoi = Inr series"
    by (rule predictDailyLST_total)
qed

theorem series_one_entry_per_day_witness:
  "inputs_ok demo_bands demo_catalog demo_model \<and>
   s2query demo_catalog {0} 0 = [] \<and>
   (\<exists>series. predictDailyLST demo_lib demo_catalog demo_model 0 3 {0} = Inr series \<and>
      length series = 3 \<and>
      map timeStart series = [Some 0, Some 86400000, Some 172800000])"
proof -
  note th = series_one_entry_per_day [of demo_lib demo_catalog demo_model 0 3 "{0}" demo_bands]
  from th demo_inputs_ok obtain series
    where r: "predictDailyLST demo_lib demo_catalog demo_model 0 3 {0} = Inr series" by blast
  with th have "length series = 3"
    and "map timeStart series = map (\<lambda>k. Some (millis (0 + int k))) [0..<nat (3 - 0)]"
    by auto
  then have "length series = 3 \<and> map timeStart series = [Some 0, Some 86400000, Some 172800000]"
    by (simp add: millis_def upt_rec)
  with r demo_inputs_ok demo_query_0 show ?thesis by simp
qed

text \<open>
  Claim C10.  For a start date \<open>s\<close> and a later end date \<open>e\<close> the requested days are the
  half-open interval: a completed run has \<open>e - s\<close> entries, for the days \<open>s\<close>, \<open>s + 1\<close>,
  ..., \<open>e - 1\<close> in this order, and no entry carries the timestamp of the end date.
\<close>

theorem requested_days_half_open:
  "s < e \<Longrightarrow>
   (\<forall>series. predictDailyLST lib cat m s e aoi = Inr series \<longrightarrow>
       length series = nat (e - s) \<and>
       map timeStart series = map (\<lambda>d. Some (millis d)) [s..e - 1] \<and>
       Some (millis e) \<notin> set (map timeStart series))
   \<and> (inputs_ok bs cat m \<longrightarrow> (\<exists>series. predictDailyLST lib cat m s e aoi = Inr series))"
proof (intro conjI allI impI)
  fix series assume r: "predictDailyLST lib cat m s e aoi = Inr series"
  show "length series = nat (e - s)" using predictDailyLST_Inr(1) [OF r] .
  show t: "map timeStart series = map (\<lambda>d. Some (millis d)) [s..e - 1]"
    using predictDailyLST_times [OF r] .
  show "Some (millis e) \<notin> set (map timeStart series)"
    unfolding t by (auto simp: millis_inj)
next
  assume "inputs_ok bs cat m"
  then show "\<exists>series. predictDailyLST lib cat m s e aoi = Inr series"
    by (rule predictDailyLST_total)
qed

theorem requested_days_half_open_witness:
  "(0::int) < 3 \<and> inputs_ok demo_bands demo_catalog demo_model \<and>
   (\<exists>series. predictDailyLST demo_lib demo_catalog demo_model 0 3 {0} = Inr series \<and>
      length series = 3 \<and>
      map timeStart series = [Some (millis 0), Some (millis 1), Some (millis 2)] \<and>
      Some (millis 3) \<notin> set (map timeStart series))"
proof -
  have lt: "(0::int) < 3" by simp
  note th = requested_days_half_open [OF lt, of demo_lib demo_catalog demo_model "{0}" demo_bands]
  from th demo_inputs_ok obtain series
    where r: "predictDailyLST demo_lib demo_catalog demo_model 0 3 {0} = Inr series" by blast
  with th have abc: "length series = nat (3 - 0) \<and>
       map timeStart series = map (\<lambda>d. Some (millis d)) [0..3 - 1] \<and>
       Some (millis 3) \<notin> set (map timeStart series)"
    by blast
  from abc have a: "length series = 3" by simp
  from abc have b: "map timeStart series = map (\<lambda>d. Some (millis d)) [0..3 - 1]" by blast
  from abc have c: "Some (millis 3) \<notin> set (map timeStart series)" by blast
  have "[0..3 - 1] = [0, 1, (2::int)]" by (simp add: upto_rec1)
  with b have b': "map timeStart series = [Some (millis 0), Some (millis 1), Some (millis 2)]"
    by simp
  note ok = demo_inputs_ok
  show ?thesis by (intro conjI exI [of _ series]; fact)
qed

text \<open>
  Claim C2, as amended.  A day whose source-image query returns no image yields a
  placeholder image: it keeps the timestamp of the day, it carries the flag
  \<^verbatim>\<open>noData = 1\<close>, its only band is called \<^verbatim>\<open>LST\<close> and is masked everywhere (no predicted
  value), and it has no other property.  The claim as written also asks for a source image
  count of 0 on the placeholder; the function stores no count.
\<close>

theorem nodata_timestep:
  "s2query cat aoi (advance s off) = [] \<Longrightarrow>
   \<exists>img. predictDay lib cat m s aoi off = Inr img \<and>
     timeStart img = Some (millis (s + off)) \<and>
     props img ''noData'' = Some 1 \<and>
     dom (props img) = {''system:time_start'', ''noData''} \<and>
     bandNames img = [''LST''] \<and>
     (\<forall>p. firstBand img p = None)"
  by (auto simp: predictDay_nodata timeStart_def bandNames_def firstBand_def)

theorem nodata_timestep_witness:
  "s2query demo_catalog {0} (advance 0 2) = [] \<and>
   getProperty ''system:time_start'' (predictDay demo_lib demo_catalog demo_model 0 {0} 2) = Some 172800000 \<and>
   getProperty ''noData'' (predictDay demo_lib demo_catalog demo_model 0 {0} 2) = Some 1"
proof -
  have q: "s2query demo_catalog {0} (advance 0 2) = []"
    using demo_query_2 by (simp add: advance_def)
  from nodata_timestep [OF q, of demo_lib demo_model]
  obtain img where "predictDay demo_lib demo_catalog demo_model 0 {0} 2 = Inr img"
    and "timeStart img = Some (millis (0 + 2))" and "props img ''noData'' = Some 1"
    by blast
  then show ?thesis using q by (simp add: getProperty_def timeStart_def millis_def)
qed

text \<open>On the small archive, day 2 has no source image and the placeholder has exactly the
  two properties \<^verbatim>\<open>system:time_start\<close> and \<^verbatim>\<open>noData\<close>, neither of them the count 0.\<close>

theorem nodata_count_counterexample:
  "s2query demo_catalog {0} (advance 0 2) = [] \<and>
   getProperty ''sourceImageCount'' (predictDay demo_lib demo_catalog demo_model 0 {0} 2) = None \<and>
   propertyNames (predictDay demo_lib demo_catalog demo_model 0 {0} 2) = {''system:time_start'', ''noData''} \<and>
   getProperty ''system:time_start'' (predictDay demo_lib demo_catalog demo_model 0 {0} 2) = Some 172800000 \<and>
   getProperty ''noData'' (predictDay demo_lib demo_catalog demo_model 0 {0} 2) = Some 1"
proof -
  have q: "s2query demo_catalog {0} (advance 0 2) = []"
    using demo_query_2 by (simp add: advance_def)
  show ?thesis
    using q by (auto simp: predictDay_nodata [OF q] getProperty_def propertyNames_def millis_def)
qed

text \<open>
  Claim C3, as amended.  A day whose source-image query returns at least one image yields,
  when the library rejects no operation, an image with the single band \<^verbatim>\<open>LST\<close> whose only
  property is the timestamp of the day (so it carries no \<^verbatim>\<open>noData\<close> flag); on
  well-formed inputs no operation is rejected.  The claim as written also asks for the count
  of matched source images on the image; the function stores no count.
\<close>

theorem valid_timestep:
  "s2query cat aoi (advance s off) \<noteq> [] \<Longrightarrow>
   (\<forall>img. predictDay lib cat m s aoi off = Inr img \<longrightarrow>
      bandNames img = [''LST''] \<and>
      props img = [''system:time_start'' \<mapsto> millis (s + off)])
   \<and> (inputs_ok bs cat m \<longrightarrow> (\<exists>img. predictDay lib cat m s aoi off = Inr img))"
proof (intro conjI allI impI)
  assume q: "s2query cat aoi (advance s off) \<noteq> []"
  fix img assume r: "predictDay lib cat m s aoi off = Inr img"
  show "bandNames img = [''LST'']" using predictDay_valid(1) [OF q r] .
  show "props img = [''system:time_start'' \<mapsto> millis (s + off)]"
    using predictDay_valid(2) [OF q r] .
next
  assume "inputs_ok bs cat m"
  then show "\<exists>img. predictDay lib cat m s aoi off = Inr img" by (rule predictDay_total)
qed

theorem valid_timestep_witness:
  "s2query demo_catalog {0} (advance 0 1) \<noteq> [] \<and>
   inputs_ok demo_bands demo_catalog demo_model \<and>
   (\<exists>img. predictDay demo_lib demo_catalog demo_model 0 {0} 1 = Inr img \<and>
      bandNames img = [''LST''] \<and> timeStart img = Some 86400000)"
proof -
  have q: "s2query demo_catalog {0} (advance 0 1) \<noteq> []"
    using demo_query_1 by (simp add: advance_def)
  note th = valid_timestep [OF q, where lib = demo_lib and m = demo_model and bs = demo_bands]
  from th demo_inputs_ok obtain img
    where r: "predictDay demo_lib demo_catalog demo_model 0 {0} 1 = Inr img" by blast
  with th have "bandNames img = [''LST'']"
    and "props img = [''system:time_start'' \<mapsto> millis (0 + 1)]" by blast+
  then have n: "bandNames img = [''LST'']" and t: "timeStart img = Some 86400000"
    by (simp_all add: timeStart_def millis_def)
  note ok = demo_inputs_ok
  show ?thesis by (intro conjI exI [of _ img]; fact)
qed

text \<open>On the small archive, day 1 has one source image and the predicted image has exactly
  one property, the timestamp.\<close>

theorem valid_count_counterexample:
  "length (s2query demo_catalog {0} (advance 0 1)) = 1 \<and>
   getProperty ''sourceImageCount'' (predictDay demo_lib demo_catalog demo_model 0 {0} 1) = None \<and>
   propertyNames (predictDay demo_lib demo_catalog demo_model 0 {0} 1) = {''system:time_start''} \<and>
   getProperty ''system:time_start'' (predictDay demo_lib demo_catalog demo_model 0 {0} 1) = Some 86400000"
proof -
  have q: "length (s2query demo_catalog {0} (advance 0 1)) = 1"
    using demo_query_1 by (simp add: advance_def)
  from demo_day_1 obtain img where "predictDay demo_lib demo_catalog demo_model 0 {0} 1 = Inr img"
    and "props img = [''system:time_start'' \<mapsto> 86400000]" by blast
  then show ?thesis using q by (simp add: getProperty_def propertyNames_def)
qed

text \<open>
  Claim C9.  The filtered view of the series assembler holds exactly the entries without the
  \<^verbatim>\<open>noData\<close> flag, each as often as the collection has it, ordered by ascending
  timestamp; the collection it is computed from, the full view, is left as it is.  For the
  series of a completed run the flagged entries are exactly the days without source
  imagery, and the filtered view is the series without them, in the order of the days.
\<close>

theorem filtered_view:
  "mset (filtered xs) = filter_mset (\<lambda>i. \<not> noDataFlag i) (mset xs) \<and>
   set (filtered xs) = {i \<in> set xs. \<not> noDataFlag i} \<and>
   sorted (map timeStart (filtered xs)) \<and>
   (\<forall>series. predictDailyLST lib cat m s e aoi = Inr series \<longrightarrow>
      filtered series = filter (\<lambda>i. \<not> noDataFlag i) series \<and>
      length series = nat (e - s) \<and>
      (\<forall>k < nat (e - s). noDataFlag (series ! k) \<longleftrightarrow> s2query cat aoi (advance s (int k)) = []))"
proof (intro conjI allI impI)
  show ms: "mset (filtered xs) = filter_mset (\<lambda>i. \<not> noDataFlag i) (mset xs)"
    by (rule filtered_mset)
  have "set_mset (mset (filtered xs)) = set_mset (filter_mset (\<lambda>i. \<not> noDataFlag i) (mset xs))"
    using ms by simp
  then show "set (filtered xs) = {i \<in> set xs. \<not> noDataFlag i}" by simp
  show "sorted (map timeStart (filtered xs))" by (rule filtered_sorted)
next
  fix series assume r: "predictDailyLST lib cat m s e aoi = Inr series"
  have "sorted_wrt (<) (map timeStart series)"
    using predictDailyLST_times [OF r] day_stamps_increasing by simp
  then have "sorted (map timeStart series)"
    using strict_sorted_iff by blast
  then show "filtered series = filter (\<lambda>i. \<not> noDataFlag i) series"
    by (rule filtered_of_sorted)
  show "length series = nat (e - s)" using predictDailyLST_Inr(1) [OF r] .
  show "noDataFlag (series ! k) \<longleftrightarrow> s2query cat aoi (advance s (int k)) = []" if "k < nat (e - s)" for k
    using predictDay_flag [OF predictDailyLST_Inr(2) [OF r that]] .
qed

theorem filtered_view_witness:
  "set (filtered [demo_valid 3, demo_nodata 2, demo_valid 1]) = {demo_valid 1, demo_valid 3} \<and>
   map timeStart (filtered [demo_valid 3, demo_nodata 2, demo_valid 1]) = [Some 1, Some 3]"
proof -
  note th = filtered_view [of "[demo_valid 3, demo_nodata 2, demo_valid 1]" demo_lib demo_catalog demo_model 0 3 "{0}"]
  have f: "noDataFlag (demo_nodata 2)" "\<not> noDataFlag (demo_valid 3)" "\<not> noDataFlag (demo_valid 1)"
    by (simp_all add: noDataFlag_def filter_eq_def demo_valid_def demo_nodata_def)
  from th have s: "set (filtered [demo_valid 3, demo_nodata 2, demo_valid 1])
      = {i \<in> set [demo_valid 3, demo_nodata 2, demo_valid 1]. \<not> noDataFlag i}" by blast
  have 1: "set (filtered [demo_valid 3, demo_nodata 2, demo_valid 1]) = {demo_valid 1, demo_valid 3}"
    unfolding s using f by auto
  have 2: "map timeStart (filtered [demo_valid 3, demo_nodata 2, demo_valid 1]) = [Some 1, Some 3]"
    using f by (simp add: filtered_def sortBy_def filter_neq_def noDataFlag_def timeStart_def
        demo_valid_def demo_nodata_def)
  show ?thesis using 1 2 by blast
qed


section \<open>Claims about the feature stacks\<close>




end
